theory Spec2Isabelle
  imports Complex_Main "HOL-Library.Log_Nat"
begin

section \<open>The Euler integration cells of the lecture notebook\<close>

text \<open>
  The notebook \<^verbatim>\<open>Module04-intro_to_integrators_lecture_notes.ipynb\<close> holds one
  computation: code cell 4 builds a time grid and the analytic solution of the harmonic
  oscillator, and code cell 8 integrates the same oscillator with Euler's method,
  writing into two freshly allocated numpy arrays:
  \<^verbatim>\<open>
  h = t[-1]/t.size
  xE = np.empty_like(x)
  yE = np.empty_like(y)
  xE[0] = x[0]
  yE[0] = y[0]
  for k,tk in enumerate(t[:-1]):
      xE[k+1] = xE[k] + h * yE[k]
      yE[k+1] = yE[k] - h * omega**2 * xE[k]
  \<close>

  Scalars. The arrays hold IEEE binary64 numbers. The definitions of the loop are
  polymorphic in the scalar type and use only the syntactic classes of \<open>+\<close>, \<open>-\<close>,
  \<open>*\<close> and \<open>^\<close>: nothing is assumed about the arithmetic (no associativity, no
  neutral element), so every theorem stated at that generality holds for any
  interpretation of the four operations, rounded binary64 arithmetic included. Two
  interpretations are used below: the reals, for statements about the recurrence in
  exact arithmetic (the spec's "real-valued scalars"), and the type \<open>f64\<close> of this
  theory, which rounds every result as binary64 does, for concrete runs.

  Arrays are lists, updated in place by \<open>xs[i := v]\<close>; an index out of range raises
  \<open>IndexError\<close> as numpy does.
\<close>

subsection \<open>Errors and array access\<close>

datatype py_error = IndexError

definition and_then :: "py_error + 'a \<Rightarrow> ('a \<Rightarrow> py_error + 'b) \<Rightarrow> py_error + 'b" where
  "and_then r f = (case r of Inl e \<Rightarrow> Inl e | Inr v \<Rightarrow> f v)"

text \<open>\<^verbatim>\<open>a[i]\<close> read for an index \<open>i \<ge> 0\<close>.\<close>

definition getitem :: "'a list \<Rightarrow> nat \<Rightarrow> py_error + 'a" where
  "getitem xs i = (if i < length xs then Inr (xs ! i) else Inl IndexError)"

text \<open>\<^verbatim>\<open>a[i] = v\<close> for an index \<open>i \<ge> 0\<close>: the array after the store.\<close>

definition setitem :: "'a list \<Rightarrow> nat \<Rightarrow> 'a \<Rightarrow> py_error + 'a list" where
  "setitem xs i v = (if i < length xs then Inr (xs[i := v]) else Inl IndexError)"

text \<open>\<^verbatim>\<open>a[-1]\<close>: the last element, \<open>IndexError\<close> on an empty array.\<close>

definition getitem_last :: "'a list \<Rightarrow> py_error + 'a" where
  "getitem_last xs = (if xs = [] then Inl IndexError else Inr (last xs))"

text \<open>
  \<^verbatim>\<open>np.empty_like(a)\<close>: an array of the shape of \<open>a\<close> whose contents are whatever the
  allocator left there. The contents are a parameter \<open>junk\<close> of the model (slot \<open>i\<close>
  holds \<open>junk i\<close>), so that a theorem for every \<open>junk\<close> is a theorem for every
  state of the uninitialised memory.
\<close>

definition empty_like :: "(nat \<Rightarrow> 'a) \<Rightarrow> 'b list \<Rightarrow> 'a list" where
  "empty_like junk a = map junk [0..<length a]"

subsection \<open>Code cell 8: the Euler loop\<close>

text \<open>
  The loop body at index \<open>k\<close>, statement by statement. The second statement reads
  \<^verbatim>\<open>xE[k]\<close> from the array the first statement has just written to.
\<close>

definition loop_body ::
  "'a::{plus,minus,power} \<Rightarrow> 'a \<Rightarrow> nat \<Rightarrow> 'a list \<times> 'a list \<Rightarrow> py_error + ('a list \<times> 'a list)" where
  "loop_body h omega k s =
     (case s of (xE, yE) \<Rightarrow>
        and_then (getitem xE k) (\<lambda>xk.
        and_then (getitem yE k) (\<lambda>yk.
        and_then (setitem xE (k + 1) (xk + h * yk)) (\<lambda>xE'.
        and_then (getitem yE k) (\<lambda>yk'.
        and_then (getitem xE' k) (\<lambda>xk'.
        and_then (setitem yE (k + 1) (yk' - h * omega ^ 2 * xk')) (\<lambda>yE'.
        Inr (xE', yE'))))))))"

text \<open>\<^verbatim>\<open>for k, tk in enumerate(...)\<close>: the body at each index in turn; an error ends the loop.\<close>

fun euler_loop ::
  "'a::{plus,minus,power} \<Rightarrow> 'a \<Rightarrow> nat list \<Rightarrow> 'a list \<times> 'a list \<Rightarrow> py_error + ('a list \<times> 'a list)" where
  "euler_loop h omega [] s = Inr s"
| "euler_loop h omega (k # ks) s = and_then (loop_body h omega k s) (euler_loop h omega ks)"

text \<open>
  The cell from its second line on, for a step size \<open>h\<close>: allocation, the two stores of
  the initial condition, and the loop over the indices of \<^verbatim>\<open>t[:-1]\<close>. The result is
  the pair of arrays \<open>(xE, yE)\<close>.
\<close>

definition euler_integrate ::
  "(nat \<Rightarrow> 'a) \<Rightarrow> (nat \<Rightarrow> 'a) \<Rightarrow> 'a::{plus,minus,power} \<Rightarrow> 'a \<Rightarrow> 't list \<Rightarrow> 'a list \<Rightarrow> 'a list
     \<Rightarrow> py_error + ('a list \<times> 'a list)" where
  "euler_integrate junk_x junk_y h omega t x y =
     (let xE = empty_like junk_x x;
          yE = empty_like junk_y y
      in and_then (getitem x 0) (\<lambda>x0.
         and_then (setitem xE 0 x0) (\<lambda>xE.
         and_then (getitem y 0) (\<lambda>y0.
         and_then (setitem yE 0 y0) (\<lambda>yE.
         euler_loop h omega [0..<length (butlast t)] (xE, yE))))))"

text \<open>The first line of the cell, \<^verbatim>\<open>h = t[-1]/t.size\<close>: the step size the loop uses.\<close>

definition step_size :: "real list \<Rightarrow> py_error + real" where
  "step_size t = and_then (getitem_last t) (\<lambda>t_last. Inr (t_last / real (length t)))"

text \<open>The whole cell.\<close>

definition euler_cell ::
  "(nat \<Rightarrow> real) \<Rightarrow> (nat \<Rightarrow> real) \<Rightarrow> real \<Rightarrow> real list \<Rightarrow> real list \<Rightarrow> real list
     \<Rightarrow> py_error + (real list \<times> real list)" where
  "euler_cell junk_x junk_y omega t x y =
     and_then (step_size t) (\<lambda>h. euler_integrate junk_x junk_y h omega t x y)"

subsection \<open>Code cell 4: the time grid and the analytic solution\<close>

text \<open>
  \<^verbatim>\<open>
  omega = 1
  A = 1.0
  phi = 0.0
  N=100
  t = np.linspace(start=0, stop=2*np.pi, num=N)
  x = A * np.cos(omega * t + phi)
  y = -A * omega * np.sin(omega * t + phi)
  \<close>
  \<^verbatim>\<open>np.linspace\<close> is numpy's, not the repository's. It is modelled as numpy computes
  it with the default \<^verbatim>\<open>endpoint=True\<close>: sample \<open>i\<close> is \<open>i * step + start\<close> with
  \<open>step = (stop - start) / (num - 1)\<close>, and the last sample is then overwritten by
  \<open>stop\<close> when \<open>num > 1\<close>; a single sample is \<open>start\<close>.
\<close>

definition linspace :: "real \<Rightarrow> real \<Rightarrow> nat \<Rightarrow> real list" where
  "linspace start stop num =
     (let n_div = num - 1;
          delta = stop - start;
          y = (if 0 < n_div then map (\<lambda>i. real i * (delta / real n_div) + start) [0..<num]
               else map (\<lambda>i. real i * delta + start) [0..<num])
      in if 1 < num then y[num - 1 := stop] else y)"

definition analytic_x :: "real \<Rightarrow> real \<Rightarrow> real \<Rightarrow> real list \<Rightarrow> real list" where
  "analytic_x A omega phi t = map (\<lambda>tk. A * cos (omega * tk + phi)) t"

definition analytic_y :: "real \<Rightarrow> real \<Rightarrow> real \<Rightarrow> real list \<Rightarrow> real list" where
  "analytic_y A omega phi t = map (\<lambda>tk. - A * omega * sin (omega * tk + phi)) t"

text \<open>
  Cells 4 and 8 run one after the other, with the notebook's constants; the number of
  samples \<open>N\<close> (100 in the notebook) is kept as a parameter.
\<close>

definition notebook ::
  "(nat \<Rightarrow> real) \<Rightarrow> (nat \<Rightarrow> real) \<Rightarrow> nat \<Rightarrow> py_error + (real list \<times> real list)" where
  "notebook junk_x junk_y N =
     (let omega = 1; A = 1; phi = 0;
          t = linspace 0 (2 * pi) N;
          x = analytic_x A omega phi t;
          y = analytic_y A omega phi t
      in euler_cell junk_x junk_y omega t x y)"

subsection \<open>The method as the notebook's text and the spec state it\<close>

text \<open>
  The Euler step as a map on states, from the formulas
  \<open>x\<^bsub>k+1\<^esub> = x\<^bsub>k\<^esub> + h y\<^bsub>k\<^esub>\<close>, \<open>y\<^bsub>k+1\<^esub> = y\<^bsub>k\<^esub> - h \<omega>\<^sup>2 x\<^bsub>k\<^esub>\<close>. The source has no
  such function: it is the reference the array loop is compared with.
\<close>

definition euler_step :: "'a::{plus,minus,power} \<Rightarrow> 'a \<Rightarrow> 'a \<times> 'a \<Rightarrow> 'a \<times> 'a" where
  "euler_step h omega s = (case s of (x, y) \<Rightarrow> (x + h * y, y - h * omega ^ 2 * x))"

text \<open>
  The loop body rewritten with two scalar variables updated one after the other, so that
  the new \<open>x\<close> is the one the update of \<open>y\<close> reads. Not in the source either: it is the
  variant the array loop must not be confused with.
\<close>

definition scalar_rewrite_step :: "'a::{plus,minus,power} \<Rightarrow> 'a \<Rightarrow> 'a \<times> 'a \<Rightarrow> 'a \<times> 'a" where
  "scalar_rewrite_step h omega s =
     (case s of (x, y) \<Rightarrow> let x = x + h * y; y = y - h * omega ^ 2 * x in (x, y))"

text \<open>The Euclidean norm of a state, and the norm that weighs the position by \<open>\<omega>\<close>.\<close>

definition state_norm :: "real \<times> real \<Rightarrow> real" where
  "state_norm s = (case s of (x, y) \<Rightarrow> sqrt (x ^ 2 + y ^ 2))"

definition weighted_norm :: "real \<Rightarrow> real \<times> real \<Rightarrow> real" where
  "weighted_norm omega s = (case s of (x, y) \<Rightarrow> sqrt ((omega * x) ^ 2 + y ^ 2))"

subsection \<open>Rounded arithmetic: binary64\<close>

text \<open>
  A binary64 number is a finite value, modelled by the rational it stands for, or one
  of \<open>+\<infinity>\<close>, \<open>-\<infinity>\<close> and NaN. An operation on finite values computes the exact result and
  rounds it: to the nearest multiple of the spacing of binary64 numbers at that
  magnitude with \<open>fl\<close> (53 significant bits, and never finer than \<open>2\<^sup>-\<^sup>1\<^sup>0\<^sup>7\<^sup>4\<close>, the
  spacing of the subnormal numbers), a tie going to the even multiple; and to an infinity
  when the exact result is at or beyond \<open>2\<^sup>1\<^sup>0\<^sup>2\<^sup>4 - 2\<^sup>9\<^sup>7\<^sup>0\<close>, the midpoint between the
  largest binary64 number and \<open>2\<^sup>1\<^sup>0\<^sup>2\<^sup>4\<close>. Infinities and NaN combine as in IEEE 754:
  \<open>\<infinity> - \<infinity>\<close> and \<open>0 * \<infinity>\<close> are NaN, and NaN is absorbing. Not modelled: the sign of zero.
\<close>

definition pow2 :: "int \<Rightarrow> rat" where
  "pow2 e = (if 0 \<le> e then 2 ^ nat e else 1 / 2 ^ nat (- e))"

text \<open>\<open>\<lfloor>log\<^sub>2 q\<rfloor>\<close> for \<open>q > 0\<close>, from the bit lengths of numerator and denominator.\<close>

definition floor_log2 :: "rat \<Rightarrow> int" where
  "floor_log2 q =
     (case quotient_of q of (a, b) \<Rightarrow>
        let e = bitlen a - bitlen b in if pow2 e \<le> q then e else e - 1)"

definition round_half_even :: "rat \<Rightarrow> int" where
  "round_half_even q =
     (let n = \<lfloor>q\<rfloor>; r = q - of_int n
      in if r < 1 / 2 then n else if 1 / 2 < r then n + 1 else if even n then n else n + 1)"

definition fl :: "rat \<Rightarrow> rat" where
  "fl q =
     (if q = 0 then 0
      else let ulp = pow2 (max (floor_log2 \<bar>q\<bar> - 52) (- 1074))
           in of_int (round_half_even (q / ulp)) * ulp)"

datatype f64 = F64 (value_of: rat) | PInf | NInf | NaN

definition overflow_threshold :: rat where
  "overflow_threshold = of_int (2 ^ 1024 - 2 ^ 970)"

definition round64 :: "rat \<Rightarrow> f64" where
  "round64 q =
     (if overflow_threshold \<le> q then PInf
      else if q \<le> - overflow_threshold then NInf
      else F64 (fl q))"

instantiation f64 :: "{zero, one, plus, minus, times}"
begin

definition zero_f64 :: f64 where
  "zero_f64 = F64 0"

definition one_f64 :: f64 where
  "one_f64 = F64 1"

fun plus_f64 :: "f64 \<Rightarrow> f64 \<Rightarrow> f64" where
  "plus_f64 (F64 a) (F64 b) = round64 (a + b)"
| "plus_f64 NaN _ = NaN"
| "plus_f64 _ NaN = NaN"
| "plus_f64 PInf NInf = NaN"
| "plus_f64 NInf PInf = NaN"
| "plus_f64 PInf _ = PInf"
| "plus_f64 _ PInf = PInf"
| "plus_f64 NInf _ = NInf"
| "plus_f64 _ NInf = NInf"

fun minus_f64 :: "f64 \<Rightarrow> f64 \<Rightarrow> f64" where
  "minus_f64 (F64 a) (F64 b) = round64 (a - b)"
| "minus_f64 NaN _ = NaN"
| "minus_f64 _ NaN = NaN"
| "minus_f64 PInf PInf = NaN"
| "minus_f64 NInf NInf = NaN"
| "minus_f64 PInf _ = PInf"
| "minus_f64 NInf _ = NInf"
| "minus_f64 _ PInf = NInf"
| "minus_f64 _ NInf = PInf"

fun times_f64 :: "f64 \<Rightarrow> f64 \<Rightarrow> f64" where
  "times_f64 (F64 a) (F64 b) = round64 (a * b)"
| "times_f64 NaN _ = NaN"
| "times_f64 _ NaN = NaN"
| "times_f64 (F64 a) PInf = (if a = 0 then NaN else if 0 < a then PInf else NInf)"
| "times_f64 (F64 a) NInf = (if a = 0 then NaN else if 0 < a then NInf else PInf)"
| "times_f64 PInf (F64 b) = (if b = 0 then NaN else if 0 < b then PInf else NInf)"
| "times_f64 NInf (F64 b) = (if b = 0 then NaN else if 0 < b then NInf else PInf)"
| "times_f64 PInf PInf = PInf"
| "times_f64 PInf NInf = NInf"
| "times_f64 NInf PInf = NInf"
| "times_f64 NInf NInf = PInf"

instance ..

end

instance f64 :: power ..

text \<open>A finite binary64 number: a finite value that rounding leaves as it is.\<close>

definition is_binary64 :: "f64 \<Rightarrow> bool" where
  "is_binary64 v = (case v of F64 q \<Rightarrow> round64 q = F64 q | _ \<Rightarrow> False)"

definition is_finite64 :: "f64 \<Rightarrow> bool" where
  "is_finite64 v = (case v of F64 q \<Rightarrow> True | _ \<Rightarrow> False)"

text \<open>A decimal literal of the program, such as \<^verbatim>\<open>0.1\<close>: the binary64 number nearest to it.\<close>

definition py_float :: "rat \<Rightarrow> f64" where
  "py_float q = round64 q"

subsection \<open>Inputs of concrete runs\<close>

text \<open>Memory that happens to hold zeros.\<close>

definition zeroed :: "nat \<Rightarrow> 'a::zero" where
  "zeroed i = 0"

text \<open>Memory that still holds older data.\<close>

definition stale :: "nat \<Rightarrow> 'a::semiring_1" where
  "stale i = of_nat (i + 7)"

text \<open>
  The positions binary64 computes from \<open>x\<^sub>0 = 0\<close>, \<open>y\<^sub>0 = 1\<close>, \<open>\<omega> = 0\<close> and \<open>h = 0.1\<close> in six
  steps: \<^verbatim>\<open>0.0, 0.1, 0.2, 0.30000000000000004, 0.4, 0.5, 0.6\<close>.
\<close>

definition tenth_drift :: "f64 list" where
  "tenth_drift =
     [0,
      F64 (3602879701896397 / 36028797018963968),
      F64 (3602879701896397 / 18014398509481984),
      F64 (1351079888211149 / 4503599627370496),
      F64 (3602879701896397 / 9007199254740992),
      F64 (1 / 2),
      F64 (5404319552844595 / 9007199254740992)]"

section \<open>Properties\<close>

subsection \<open>Array access\<close>

lemma and_then_Inr [simp]: "and_then (Inr v) f = f v"
  by (simp add: and_then_def)

lemma and_then_Inl [simp]: "and_then (Inl e) f = Inl e"
  by (simp add: and_then_def)

lemma getitem_in_range [simp]: "i < length xs \<Longrightarrow> getitem xs i = Inr (xs ! i)"
  by (simp add: getitem_def)

lemma setitem_in_range [simp]: "i < length xs \<Longrightarrow> setitem xs i v = Inr (xs[i := v])"
  by (simp add: setitem_def)

lemma length_empty_like [simp]: "length (empty_like junk a) = length a"
  by (simp add: empty_like_def)

subsection \<open>One pass of the loop body\<close>

lemma loop_body_in_range:
  assumes "Suc k < length xE" and "Suc k < length yE"
  shows "loop_body h omega k (xE, yE) =
           Inr (xE[Suc k := xE ! k + h * yE ! k], yE[Suc k := yE ! k - h * omega ^ 2 * xE ! k])"
  using assms by (simp add: loop_body_def)

subsection \<open>The loop\<close>

lemma euler_loop_upt:
  assumes "i \<le> j" and "j < length xE" and "length yE = length xE"
  shows "\<exists>xE' yE'. euler_loop h omega [i..<j] (xE, yE) = Inr (xE', yE')
           \<and> length xE' = length xE \<and> length yE' = length xE
           \<and> (\<forall>m\<le>i. xE' ! m = xE ! m \<and> yE' ! m = yE ! m)
           \<and> (\<forall>k. i \<le> k \<and> k < j \<longrightarrow>
                  (xE' ! Suc k, yE' ! Suc k) = euler_step h omega (xE' ! k, yE' ! k))"
  using assms
proof (induction "j - i" arbitrary: i xE yE)
  case 0
  then show ?case by auto
next
  case (Suc d)
  then have ij: "i < j" and d: "d = j - Suc i" by simp_all
  let ?xE1 = "xE[Suc i := xE ! i + h * yE ! i]"
  let ?yE1 = "yE[Suc i := yE ! i - h * omega ^ 2 * xE ! i]"
  have body: "loop_body h omega i (xE, yE) = Inr (?xE1, ?yE1)"
    using ij Suc.prems by (intro loop_body_in_range) simp_all
  have "\<exists>xE' yE'. euler_loop h omega [Suc i..<j] (?xE1, ?yE1) = Inr (xE', yE')
           \<and> length xE' = length ?xE1 \<and> length yE' = length ?xE1
           \<and> (\<forall>m\<le>Suc i. xE' ! m = ?xE1 ! m \<and> yE' ! m = ?yE1 ! m)
           \<and> (\<forall>k. Suc i \<le> k \<and> k < j \<longrightarrow>
                  (xE' ! Suc k, yE' ! Suc k) = euler_step h omega (xE' ! k, yE' ! k))"
    using ij Suc.prems by (intro Suc.hyps(1) d) simp_all
  then obtain xE' yE' where
    run: "euler_loop h omega [Suc i..<j] (?xE1, ?yE1) = Inr (xE', yE')"
    and len: "length xE' = length xE" "length yE' = length xE"
    and low: "\<And>m. m \<le> Suc i \<Longrightarrow> xE' ! m = ?xE1 ! m \<and> yE' ! m = ?yE1 ! m"
    and rec: "\<And>k. Suc i \<le> k \<Longrightarrow> k < j \<Longrightarrow>
                  (xE' ! Suc k, yE' ! Suc k) = euler_step h omega (xE' ! k, yE' ! k)"
    by auto
  have whole: "euler_loop h omega [i..<j] (xE, yE) = Inr (xE', yE')"
    using ij body run by (simp add: upt_conv_Cons)
  have keep: "xE' ! m = xE ! m \<and> yE' ! m = yE ! m" if "m \<le> i" for m
    using low [of m] that by simp
  have first: "(xE' ! Suc i, yE' ! Suc i) = euler_step h omega (xE' ! i, yE' ! i)"
    using low [of "Suc i"] keep [of i] ij Suc.prems by (simp add: euler_step_def)
  have "(xE' ! Suc k, yE' ! Suc k) = euler_step h omega (xE' ! k, yE' ! k)"
    if "i \<le> k" "k < j" for k
  proof (cases "k = i")
    case True
    then show ?thesis using first by simp
  next
    case False
    then show ?thesis using rec [of k] that by simp
  qed
  then show ?case using whole len keep by blast
qed

lemma euler_integrate_run:
  assumes "length x = length t" and "length y = length t" and "t \<noteq> []"
  shows "\<exists>xE yE. euler_integrate junk_x junk_y h omega t x y = Inr (xE, yE)
           \<and> length xE = length t \<and> length yE = length t
           \<and> xE ! 0 = x ! 0 \<and> yE ! 0 = y ! 0
           \<and> (\<forall>k. Suc k < length t \<longrightarrow>
                  (xE ! Suc k, yE ! Suc k) = euler_step h omega (xE ! k, yE ! k))"
proof -
  let ?xE0 = "(empty_like junk_x x)[0 := x ! 0]"
  let ?yE0 = "(empty_like junk_y y)[0 := y ! 0]"
  have pos: "0 < length t" using assms(3) by simp
  have start: "euler_integrate junk_x junk_y h omega t x y =
                 euler_loop h omega [0..<length t - 1] (?xE0, ?yE0)"
    using assms pos by (simp add: euler_integrate_def Let_def)
  have "\<exists>xE' yE'. euler_loop h omega [0..<length t - 1] (?xE0, ?yE0) = Inr (xE', yE')
           \<and> length xE' = length ?xE0 \<and> length yE' = length ?xE0
           \<and> (\<forall>m\<le>0. xE' ! m = ?xE0 ! m \<and> yE' ! m = ?yE0 ! m)
           \<and> (\<forall>k. 0 \<le> k \<and> k < length t - 1 \<longrightarrow>
                  (xE' ! Suc k, yE' ! Suc k) = euler_step h omega (xE' ! k, yE' ! k))"
    using assms pos by (intro euler_loop_upt) simp_all
  then obtain xE' yE' where
    run: "euler_loop h omega [0..<length t - 1] (?xE0, ?yE0) = Inr (xE', yE')"
    and len: "length xE' = length t" "length yE' = length t"
    and low: "xE' ! 0 = ?xE0 ! 0" "yE' ! 0 = ?yE0 ! 0"
    and rec: "\<And>k. k < length t - 1 \<Longrightarrow>
                  (xE' ! Suc k, yE' ! Suc k) = euler_step h omega (xE' ! k, yE' ! k)"
    using assms by auto
  have init: "xE' ! 0 = x ! 0" "yE' ! 0 = y ! 0"
    using low assms pos by simp_all
  have "\<forall>k. Suc k < length t \<longrightarrow>
          (xE' ! Suc k, yE' ! Suc k) = euler_step h omega (xE' ! k, yE' ! k)"
    using rec by (simp add: less_diff_conv)
  then show ?thesis using start run len init by simp
qed

lemma recurrence_iterate:
  assumes "xE ! 0 = x0" and "yE ! 0 = y0"
    and "\<forall>k. Suc k < N \<longrightarrow> (xE ! Suc k, yE ! Suc k) = euler_step h omega (xE ! k, yE ! k)"
  shows "k < N \<Longrightarrow> (xE ! k, yE ! k) = (euler_step h omega ^^ k) (x0, y0)"
proof (induction k)
  case 0
  then show ?case using assms by simp
next
  case (Suc k)
  then show ?case using assms(3) by simp
qed

lemma euler_integrate_iterates:
  assumes "length x = length t" and "length y = length t" and "t \<noteq> []"
  shows "euler_integrate junk_x junk_y h omega t x y =
           Inr (map (\<lambda>k. fst ((euler_step h omega ^^ k) (x ! 0, y ! 0))) [0..<length t],
                map (\<lambda>k. snd ((euler_step h omega ^^ k) (x ! 0, y ! 0))) [0..<length t])"
proof -
  obtain xE yE where
    run: "euler_integrate junk_x junk_y h omega t x y = Inr (xE, yE)"
    and len: "length xE = length t" "length yE = length t"
    and init: "xE ! 0 = x ! 0" "yE ! 0 = y ! 0"
    and rec: "\<forall>k. Suc k < length t \<longrightarrow>
                  (xE ! Suc k, yE ! Suc k) = euler_step h omega (xE ! k, yE ! k)"
    using euler_integrate_run [OF assms] by blast
  have nth: "(xE ! k, yE ! k) = (euler_step h omega ^^ k) (x ! 0, y ! 0)" if "k < length t" for k
    using recurrence_iterate [OF init rec that] .
  have "xE = map (\<lambda>k. fst ((euler_step h omega ^^ k) (x ! 0, y ! 0))) [0..<length t]"
    using len nth by (intro nth_equalityI) (simp_all add: fst_def split: prod.splits, metis fst_conv)
  moreover have "yE = map (\<lambda>k. snd ((euler_step h omega ^^ k) (x ! 0, y ! 0))) [0..<length t]"
    using len nth by (intro nth_equalityI) (simp_all, metis snd_conv)
  ultimately show ?thesis using run by simp
qed

lemma euler_integrate_empty:
  "euler_integrate junk_x junk_y h omega t [] y = Inl IndexError"
  by (simp add: euler_integrate_def getitem_def)

lemma two_sample_run:
  "euler_integrate junk_x junk_y h omega [t0, t1] [x0, x1] [y0, y1]
     = Inr ([x0, fst (euler_step h omega (x0, y0))], [y0, snd (euler_step h omega (x0, y0))])"
  by (simp add: euler_integrate_def empty_like_def loop_body_def euler_step_def)

subsection \<open>Rounded arithmetic on concrete values\<close>

lemma fl_0 [simp]: "fl 0 = 0"
  by (simp add: fl_def)

lemma round64_0 [simp]: "round64 0 = F64 0"
  by (simp add: round64_def overflow_threshold_def)

text \<open>
  The rounding function against values known from binary64: the numbers nearest to
  \<open>0.1\<close> and \<open>\<plusminus>1/3\<close>, and two ties just above \<open>2\<^sup>5\<^sup>3\<close>, which go to the even neighbour.
\<close>

lemma binary64_known_values:
  "fl (1 / 10) = 3602879701896397 / 36028797018963968"
  "fl (1 / 3) = 6004799503160661 / 18014398509481984"
  "fl (- (1 / 3)) = - (6004799503160661 / 18014398509481984)"
  "fl 9007199254740993 = 9007199254740992"
  "fl 9007199254740995 = 9007199254740996"
  by code_simp+

text \<open>Single Euler steps in binary64, used by the concrete runs below.\<close>

lemma binary64_step_example:
  "euler_step (py_float (1 / 10)) (F64 3) (1, F64 (1 / 2))
     = (F64 (4728779608739021 / 4503599627370496), F64 (- (3602879701896397 / 9007199254740992)))"
  by code_simp

lemma shrink_step_binary64:
  "euler_step (F64 (1 / 4)) (F64 2) (1, 1) = (F64 (5 / 4), 0)"
  by code_simp

lemma drift_step_0:
  "euler_step (py_float (1 / 10)) 0 (0, 1) = (F64 (3602879701896397 / 36028797018963968), 1)"
  by code_simp

lemma drift_step_1:
  "euler_step (py_float (1 / 10)) 0 (F64 (3602879701896397 / 36028797018963968), 1)
     = (F64 (3602879701896397 / 18014398509481984), 1)"
  by code_simp

lemma drift_step_2:
  "euler_step (py_float (1 / 10)) 0 (F64 (3602879701896397 / 18014398509481984), 1)
     = (F64 (1351079888211149 / 4503599627370496), 1)"
  by code_simp

lemma drift_step_3:
  "euler_step (py_float (1 / 10)) 0 (F64 (1351079888211149 / 4503599627370496), 1)
     = (F64 (3602879701896397 / 9007199254740992), 1)"
  by code_simp

lemma drift_step_4:
  "euler_step (py_float (1 / 10)) 0 (F64 (3602879701896397 / 9007199254740992), 1)
     = (F64 (1 / 2), 1)"
  by code_simp

lemma drift_step_5:
  "euler_step (py_float (1 / 10)) 0 (F64 (1 / 2), 1)
     = (F64 (5404319552844595 / 9007199254740992), 1)"
  by code_simp

lemmas drift_steps =
  drift_step_0 drift_step_1 drift_step_2 drift_step_3 drift_step_4 drift_step_5

lemma drift_iterates:
  assumes "k < 7"
  shows "(euler_step (py_float (1 / 10)) 0 ^^ k) (0, 1) = (tenth_drift ! k, 1)"
proof -
  consider "k = 0" | "k = Suc 0" | "k = Suc (Suc 0)" | "k = Suc (Suc (Suc 0))"
    | "k = Suc (Suc (Suc (Suc 0)))" | "k = Suc (Suc (Suc (Suc (Suc 0))))"
    | "k = Suc (Suc (Suc (Suc (Suc (Suc 0)))))"
    using assms by linarith
  then show ?thesis
    by cases
      (simp_all only: funpow.simps o_apply id_apply drift_steps tenth_drift_def
         nth_Cons_0 nth_Cons_Suc)
qed

lemma tenth_drift_run:
  "euler_integrate zeroed zeroed (py_float (1 / 10)) 0 [0 ..< 7] (replicate 7 0) (replicate 7 1)
     = Inr (tenth_drift, replicate 7 1)"
proof -
  let ?f = "euler_step (py_float (1 / 10)) 0"
  let ?s = "(replicate 7 0 ! 0, replicate 7 1 ! 0) :: f64 \<times> f64"
  have "euler_integrate zeroed zeroed (py_float (1 / 10)) 0 [0 ..< 7] (replicate 7 0) (replicate 7 1)
     = Inr (map (\<lambda>k. fst ((?f ^^ k) ?s)) [0..<length [0..<7]],
            map (\<lambda>k. snd ((?f ^^ k) ?s)) [0..<length [0..<7]])"
    by (rule euler_integrate_iterates) simp_all
  moreover have "map (\<lambda>k. fst ((?f ^^ k) ?s)) [0..<length [0..<7]] = tenth_drift"
    by (intro nth_equalityI) (simp add: tenth_drift_def, simp add: drift_iterates)
  moreover have "map (\<lambda>k. snd ((?f ^^ k) ?s)) [0..<length [0..<7]] = replicate 7 1"
    by (intro nth_equalityI) (simp_all add: drift_iterates)
  ultimately show ?thesis by simp
qed

lemma closed_form_rounded:
  "0 + F64 6 * py_float (1 / 10) * 1 = F64 (5404319552844596 / 9007199254740992)"
  by code_simp

lemma closed_form_exact:
  "0 + 6 * value_of (py_float (1 / 10)) * 1 = 10808639105689191 / 18014398509481984"
  by code_simp

section \<open>The claims\<close>

subsection \<open>Structure of the computation, for every scalar arithmetic\<close>

text \<open>
  Claim C1. One pass of the loop body at index \<open>k\<close> stores
  \<open>xE[k] + h * yE[k]\<close> in \<open>xE[k+1]\<close> and \<open>yE[k] - h * omega**2 * xE[k]\<close> in
  \<open>yE[k+1]\<close>, where \<open>xE[k]\<close> and \<open>yE[k]\<close> are the values before the pass. The new
  state depends on \<open>x\<^sub>k\<close>, \<open>y\<^sub>k\<close>, \<open>h\<close> and \<open>\<omega>\<close> only, the pass raises no error when
  \<open>k + 1\<close> is in range, and no other slot of either array changes.
\<close>

theorem euler_step_in_place:
  assumes "Suc k < length xE" and "Suc k < length yE"
  shows "\<exists>xE' yE'. loop_body h omega k (xE, yE) = Inr (xE', yE')
           \<and> xE' = xE[Suc k := xE ! k + h * yE ! k]
           \<and> yE' = yE[Suc k := yE ! k - h * omega ^ 2 * xE ! k]
           \<and> xE' ! Suc k = xE ! k + h * yE ! k
           \<and> yE' ! Suc k = yE ! k - h * omega ^ 2 * xE ! k
           \<and> (\<forall>i. i \<noteq> Suc k \<longrightarrow> xE' ! i = xE ! i \<and> yE' ! i = yE ! i)"
  using assms by (simp add: loop_body_in_range)

theorem euler_step_in_place_witness:
  "Suc 0 < length [1, 0 :: f64] \<and> Suc 0 < length [F64 (1 / 2), 0]
   \<and> loop_body (py_float (1 / 10)) (F64 3) 0 ([1, 0], [F64 (1 / 2), 0])
       = Inr ([1, F64 (4728779608739021 / 4503599627370496)],
              [F64 (1 / 2), F64 (- (3602879701896397 / 9007199254740992))])"
proof -
  have "[1, 0 :: f64] ! 0 + py_float (1 / 10) * [F64 (1 / 2), 0] ! 0
          = F64 (4728779608739021 / 4503599627370496)"
    and "[F64 (1 / 2), 0] ! 0 - py_float (1 / 10) * F64 3 ^ 2 * [1, 0 :: f64] ! 0
          = F64 (- (3602879701896397 / 9007199254740992))"
    using binary64_step_example by (simp_all add: euler_step_def)
  then show ?thesis
    using euler_step_in_place [of 0 "[1, 0 :: f64]" "[F64 (1 / 2), 0]" "py_float (1 / 10)" "F64 3"]
    by auto
qed

text \<open>
  Claim C2. For arrays of a common length \<open>N > 0\<close> the cell returns two arrays of
  length \<open>N\<close>; their first elements are \<open>x[0]\<close> and \<open>y[0]\<close> as supplied; each of the
  \<open>N - 1\<close> later elements is the Euler update of the one before it; and the last state
  is the \<open>(N - 1)\<close>-fold Euler step of the initial state.
\<close>

theorem trajectory_shape:
  assumes "length t = N" and "length x = N" and "length y = N" and "0 < N"
  shows "\<exists>xE yE. euler_integrate junk_x junk_y h omega t x y = Inr (xE, yE)
           \<and> length xE = N \<and> length yE = N
           \<and> xE ! 0 = x ! 0 \<and> yE ! 0 = y ! 0
           \<and> (\<forall>k. Suc k < N \<longrightarrow>
                  xE ! Suc k = xE ! k + h * yE ! k
                  \<and> yE ! Suc k = yE ! k - h * omega ^ 2 * xE ! k)
           \<and> (xE ! (N - 1), yE ! (N - 1)) = (euler_step h omega ^^ (N - 1)) (x ! 0, y ! 0)"
proof -
  have t: "length x = length t" "length y = length t" "t \<noteq> []"
    using assms by auto
  obtain xE yE where
    run: "euler_integrate junk_x junk_y h omega t x y = Inr (xE, yE)"
    and len: "length xE = length t" "length yE = length t"
    and init: "xE ! 0 = x ! 0" "yE ! 0 = y ! 0"
    and rec: "\<forall>k. Suc k < length t \<longrightarrow>
                  (xE ! Suc k, yE ! Suc k) = euler_step h omega (xE ! k, yE ! k)"
    using euler_integrate_run [OF t] by blast
  have "N - 1 < length t" using assms by simp
  then have final: "(xE ! (N - 1), yE ! (N - 1)) = (euler_step h omega ^^ (N - 1)) (x ! 0, y ! 0)"
    by (rule recurrence_iterate [OF init rec])
  have "\<forall>k. Suc k < N \<longrightarrow>
          xE ! Suc k = xE ! k + h * yE ! k \<and> yE ! Suc k = yE ! k - h * omega ^ 2 * xE ! k"
    using rec assms(1) by (simp add: euler_step_def)
  then show ?thesis using run len init final assms(1) by simp
qed

theorem trajectory_shape_witness:
  "\<exists>xE yE. euler_integrate zeroed zeroed (2 :: int) 3 [0, 0, 0 :: int] [1, 8, 8] [4, 9, 9] = Inr (xE, yE)
     \<and> length xE = 3 \<and> length yE = 3 \<and> xE ! 0 = 1 \<and> yE ! 0 = 4
     \<and> xE ! 1 = xE ! 0 + 2 * yE ! 0 \<and> yE ! 1 = yE ! 0 - 2 * 3 ^ 2 * xE ! 0
     \<and> xE ! 2 = xE ! 1 + 2 * yE ! 1 \<and> yE ! 2 = yE ! 1 - 2 * 3 ^ 2 * xE ! 1"
  using trajectory_shape [of "[0, 0, 0 :: int]" 3 "[1, 8, 8 :: int]" "[4, 9, 9 :: int]" zeroed zeroed 2 3]
  by (auto simp: numeral_2_eq_2)

text \<open>
  Claim C7. For \<open>N = 1\<close> the loop body never runs: the result holds the initial state
  and nothing else, whatever \<open>\<omega>\<close>, \<open>h\<close> and the uninitialised memory are.
\<close>

theorem single_sample_trajectory:
  "euler_integrate junk_x junk_y h omega [t0] [x0] [y0] = Inr ([x0], [y0])"
  by (simp add: euler_integrate_def empty_like_def)

text \<open>
  Claim C8. The result is a function of \<open>h\<close>, \<open>\<omega>\<close> and the input arrays alone. The one
  input of the cell that two runs need not share, the contents of the buffers that
  \<^verbatim>\<open>np.empty_like\<close> allocates, does not reach the output: every slot is written before
  it is read. Two runs on the same inputs return the same arrays or the same error.
\<close>

theorem output_independent_of_uninitialised_memory:
  assumes "length x = length t" and "length y = length t"
  shows "euler_integrate junk_x junk_y h omega t x y
           = euler_integrate junk_x' junk_y' h omega t x y"
proof (cases "t = []")
  case True
  then have "x = []" using assms by simp
  then show ?thesis by (simp add: euler_integrate_empty)
next
  case False
  then show ?thesis using assms by (simp add: euler_integrate_iterates)
qed

theorem output_independent_of_uninitialised_memory_witness:
  "length [1, 0 :: int] = length [0, 0 :: int] \<and> length [4, 0 :: int] = length [0, 0 :: int]
   \<and> euler_integrate zeroed zeroed (2 :: int) 3 [0, 0 :: int] [1, 0] [4, 0]
       = euler_integrate stale stale 2 3 [0, 0 :: int] [1, 0] [4, 0]"
  using output_independent_of_uninitialised_memory
          [of "[1, 0 :: int]" "[0, 0 :: int]" "[4, 0 :: int]" zeroed zeroed 2 3 stale stale]
  by simp

lemma rewrite_agrees_iff:
  fixes h omega x y :: real
  shows "(scalar_rewrite_step h omega (x, y) = euler_step h omega (x, y))
           = (h = 0 \<or> omega = 0 \<or> y = 0)"
  by (auto simp: scalar_rewrite_step_def euler_step_def Let_def algebra_simps)

text \<open>
  Claim C9. The in-place array loop computes the iterates of the Euler step map:
  element \<open>k\<close> of the result is the \<open>k\<close>-fold step of the initial state, because the
  update of \<open>yE[k+1]\<close> reads \<open>xE[k]\<close>, a slot the store to \<open>xE[k+1]\<close> has left alone.
  The rewrite with two scalar variables, which lets the update of \<open>y\<close> read the new
  \<open>x\<close>, is a different map: over the reals it agrees with the Euler step at a state
  exactly when \<open>h = 0\<close>, \<open>\<omega> = 0\<close> or \<open>y = 0\<close>.
\<close>

theorem array_loop_refines_iteration:
  assumes "length x = length t" and "length y = length t" and "t \<noteq> []"
  shows "(\<exists>xE yE. euler_integrate junk_x junk_y h omega t x y = Inr (xE, yE)
            \<and> (\<forall>k<length t. (xE ! k, yE ! k) = (euler_step h omega ^^ k) (x ! 0, y ! 0)))
         \<and> (\<forall>(h' :: real) omega' x' y'.
              (scalar_rewrite_step h' omega' (x', y') = euler_step h' omega' (x', y'))
                = (h' = 0 \<or> omega' = 0 \<or> y' = 0))"
proof -
  obtain xE yE where
    run: "euler_integrate junk_x junk_y h omega t x y = Inr (xE, yE)"
    and init: "xE ! 0 = x ! 0" "yE ! 0 = y ! 0"
    and rec: "\<forall>k. Suc k < length t \<longrightarrow>
                  (xE ! Suc k, yE ! Suc k) = euler_step h omega (xE ! k, yE ! k)"
    using euler_integrate_run [OF assms] by blast
  have "\<forall>k<length t. (xE ! k, yE ! k) = (euler_step h omega ^^ k) (x ! 0, y ! 0)"
    using recurrence_iterate [OF init rec] by blast
  then show ?thesis using run rewrite_agrees_iff by blast
qed

theorem array_loop_refines_iteration_witness:
  "\<exists>xE yE. euler_integrate zeroed zeroed (2 :: int) 3 [0, 0, 0 :: int] [1, 8, 8] [4, 9, 9] = Inr (xE, yE)
     \<and> (xE ! 2, yE ! 2) = euler_step 2 3 (euler_step 2 3 (1, 4))
     \<and> (xE ! 2, yE ! 2) = (- 19, - 176)
     \<and> scalar_rewrite_step (1 :: real) 1 (0, 1) \<noteq> euler_step 1 1 (0, 1)"
proof -
  note inst = array_loop_refines_iteration
          [of "[1, 8, 8 :: int]" "[0, 0, 0 :: int]" "[4, 9, 9 :: int]" zeroed zeroed 2 3]
  obtain xE yE where
    run: "euler_integrate zeroed zeroed (2 :: int) 3 [0, 0, 0 :: int] [1, 8, 8] [4, 9, 9] = Inr (xE, yE)"
    and nth: "\<forall>k<3. (xE ! k, yE ! k) = (euler_step 2 3 ^^ k) (1, 4)"
    using inst by auto
  have two: "(xE ! 2, yE ! 2) = euler_step 2 3 (euler_step 2 3 (1, 4))"
    using nth by (simp add: numeral_2_eq_2)
  have val: "euler_step 2 3 (euler_step 2 3 (1 :: int, 4 :: int)) = (- 19, - 176)"
    by (simp add: euler_step_def)
  have "scalar_rewrite_step (1 :: real) 1 (0, 1) \<noteq> euler_step 1 1 (0, 1)"
    using inst by simp
  then show ?thesis using run two val by simp
qed

subsection \<open>The notebook's run, in exact arithmetic\<close>

text \<open>
  In this subsection the scalars are reals: the statements are about what cells 4 and 8
  compute when every operation is exact.
\<close>

lemma length_linspace [simp]: "length (linspace start stop num) = num"
  by (simp add: linspace_def Let_def)

lemma linspace_nth:
  assumes "1 < N" and "k < N"
  shows "linspace 0 stop N ! k = real k * (stop / real (N - 1))"
proof (cases "k = N - 1")
  case True
  then show ?thesis using assms by (simp add: linspace_def Let_def)
next
  case False
  then show ?thesis using assms by (simp add: linspace_def Let_def)
qed

lemma linspace_last:
  assumes "1 < N"
  shows "getitem_last (linspace 0 stop N) = Inr stop"
proof -
  have ne: "linspace 0 stop N \<noteq> []"
    using assms by (metis length_linspace list.size(3) not_less_zero)
  have "last (linspace 0 stop N) = linspace 0 stop N ! (N - 1)"
    using ne by (simp add: last_conv_nth)
  also have "\<dots> = stop"
    using assms by (simp add: linspace_nth)
  finally show ?thesis using ne by (simp add: getitem_last_def)
qed

lemma step_size_linspace:
  assumes "1 < N"
  shows "step_size (linspace 0 stop N) = Inr (stop / real N)"
  using assms by (simp add: step_size_def linspace_last)

lemma notebook_unfold:
  assumes "1 < N"
  shows "notebook junk_x junk_y N =
           euler_integrate junk_x junk_y (2 * pi / real N) 1 (linspace 0 (2 * pi) N)
             (analytic_x 1 1 0 (linspace 0 (2 * pi) N))
             (analytic_y 1 1 0 (linspace 0 (2 * pi) N))"
  using assms by (simp add: notebook_def euler_cell_def step_size_linspace Let_def)

lemma analytic_initial:
  assumes "1 < N"
  shows "analytic_x 1 1 0 (linspace 0 stop N) ! 0 = 1"
    and "analytic_y 1 1 0 (linspace 0 stop N) ! 0 = 0"
  using assms by (simp_all add: analytic_x_def analytic_y_def linspace_nth)

text \<open>
  Claim C4. The notebook's own run (\<open>\<omega> = 1\<close>, \<open>A = 1\<close>, \<open>\<phi> = 0\<close>, \<open>N = 100\<close>, the grid
  \<open>linspace(0, 2\<pi>, 100)\<close>) starts from the state \<open>(1, 0)\<close>, uses \<open>h = 2\<pi>/100\<close>, and
  its first computed state is \<open>(1, -h)\<close>.
\<close>

theorem notebook_first_step:
  "\<exists>xE yE. notebook junk_x junk_y 100 = Inr (xE, yE)
     \<and> length xE = 100 \<and> length yE = 100
     \<and> (xE ! 0, yE ! 0) = (1, 0)
     \<and> (xE ! 1, yE ! 1) = (1, - (2 * pi / 100))"
proof -
  let ?t = "linspace 0 (2 * pi) 100"
  let ?x = "analytic_x 1 1 0 ?t"
  let ?y = "analytic_y 1 1 0 ?t"
  have t: "length ?x = length ?t" "length ?y = length ?t" "?t \<noteq> []"
    by (simp_all add: analytic_x_def analytic_y_def) (metis length_linspace list.size(3) zero_neq_numeral)
  obtain xE yE where
    run: "euler_integrate junk_x junk_y (2 * pi / 100) 1 ?t ?x ?y = Inr (xE, yE)"
    and len: "length xE = length ?t" "length yE = length ?t"
    and init: "xE ! 0 = ?x ! 0" "yE ! 0 = ?y ! 0"
    and rec: "\<forall>k. Suc k < length ?t \<longrightarrow>
                  (xE ! Suc k, yE ! Suc k) = euler_step (2 * pi / 100) 1 (xE ! k, yE ! k)"
    using euler_integrate_run [OF t] by blast
  have x0: "xE ! 0 = 1" and y0: "yE ! 0 = 0"
    using init analytic_initial [of 100 "2 * pi"] by simp_all
  have "(xE ! Suc 0, yE ! Suc 0) = euler_step (2 * pi / 100) 1 (xE ! 0, yE ! 0)"
    using rec by simp
  then have first: "(xE ! 1, yE ! 1) = (1, - (2 * pi / 100))"
    using x0 y0 by (simp add: euler_step_def)
  have "notebook junk_x junk_y 100 = Inr (xE, yE)"
    using run notebook_unfold [of 100 junk_x junk_y] by simp
  then show ?thesis using len x0 y0 first by simp
qed

text \<open>
  Claim C10. For every \<open>N > 1\<close> the step size the cell computes, \<open>t[-1]/t.size = 2\<pi>/N\<close>,
  is not the spacing of the grid \<open>t\<close>, which is \<open>2\<pi>/(N - 1)\<close>: it is strictly smaller.
  The loop runs with that \<open>h\<close>, so sample \<open>k\<close> of the result stands for time
  \<open>k * 2\<pi>/N\<close>, while the grid value of the same index is \<open>t[k] = k * 2\<pi>/(N - 1)\<close>, which
  is later for every \<open>k > 0\<close>.
\<close>

theorem step_size_is_not_grid_spacing:
  assumes "1 < N"
  shows "step_size (linspace 0 (2 * pi) N) = Inr (2 * pi / real N)
         \<and> (\<forall>k<N. linspace 0 (2 * pi) N ! k = real k * (2 * pi / real (N - 1)))
         \<and> (\<forall>k. Suc k < N \<longrightarrow>
               linspace 0 (2 * pi) N ! Suc k - linspace 0 (2 * pi) N ! k = 2 * pi / real (N - 1))
         \<and> 2 * pi / real N < 2 * pi / real (N - 1)
         \<and> 2 * pi / real N \<noteq> 2 * pi / real (N - 1)
         \<and> (\<forall>k<N. 0 < k \<longrightarrow> real k * (2 * pi / real N) < linspace 0 (2 * pi) N ! k)
         \<and> notebook junk_x junk_y N =
             euler_integrate junk_x junk_y (2 * pi / real N) 1 (linspace 0 (2 * pi) N)
               (analytic_x 1 1 0 (linspace 0 (2 * pi) N))
               (analytic_y 1 1 0 (linspace 0 (2 * pi) N))"
proof -
  let ?t = "linspace 0 (2 * pi) N"
  have nth: "\<forall>k<N. ?t ! k = real k * (2 * pi / real (N - 1))"
    using assms by (simp add: linspace_nth)
  have diff: "real (Suc k) * c - real k * c = c" for k and c :: real
    by (simp add: algebra_simps)
  have "?t ! Suc k - ?t ! k = 2 * pi / real (N - 1)" if "Suc k < N" for k
  proof -
    have "?t ! Suc k = real (Suc k) * (2 * pi / real (N - 1))"
      and "?t ! k = real k * (2 * pi / real (N - 1))"
      using nth that by simp_all
    then show ?thesis by (simp only: diff)
  qed
  then have gap: "\<forall>k. Suc k < N \<longrightarrow> ?t ! Suc k - ?t ! k = 2 * pi / real (N - 1)"
    by blast
  have "real (N - 1) < real N" "0 < real (N - 1)"
    using assms by simp_all
  then have less: "2 * pi / real N < 2 * pi / real (N - 1)"
    by (intro divide_strict_left_mono mult_pos_pos) simp_all
  have "real k * (2 * pi / real N) < ?t ! k" if "k < N" "0 < k" for k
  proof -
    have "real k * (2 * pi / real N) < real k * (2 * pi / real (N - 1))"
      using less that(2) by (intro mult_strict_left_mono) simp_all
    then show ?thesis using nth that(1) by simp
  qed
  then have skew: "\<forall>k<N. 0 < k \<longrightarrow> real k * (2 * pi / real N) < ?t ! k"
    by blast
  have ne: "2 * pi / real N \<noteq> 2 * pi / real (N - 1)"
    using less by (rule less_imp_neq)
  have h: "step_size ?t = Inr (2 * pi / real N)"
    using assms by (rule step_size_linspace)
  have run: "notebook junk_x junk_y N =
               euler_integrate junk_x junk_y (2 * pi / real N) 1 ?t
                 (analytic_x 1 1 0 ?t) (analytic_y 1 1 0 ?t)"
    using assms by (rule notebook_unfold)
  show ?thesis
    using h nth gap less ne skew run by blast
qed

theorem step_size_is_not_grid_spacing_witness:
  "step_size (linspace 0 (2 * pi) 100) = Inr (2 * pi / 100)
   \<and> linspace 0 (2 * pi) 100 ! 1 - linspace 0 (2 * pi) 100 ! 0 = 2 * pi / 99
   \<and> 2 * pi / 100 \<noteq> 2 * pi / (99 :: real)
   \<and> linspace 0 (2 * pi) 100 ! 50 = 50 * (2 * pi / 99)
   \<and> 50 * (2 * pi / 100) < linspace 0 (2 * pi) 100 ! 50"
proof -
  have "(1 :: nat) < 100" by simp
  note inst = step_size_is_not_grid_spacing [where junk_x = zeroed and junk_y = zeroed, OF this]
  have h: "step_size (linspace 0 (2 * pi) 100) = Inr (2 * pi / 100)"
    using inst by simp
  have nth: "\<forall>k<100. linspace 0 (2 * pi) 100 ! k = real k * (2 * pi / real (100 - 1))"
    using inst by blast
  have gap: "\<forall>k. Suc k < 100 \<longrightarrow>
               linspace 0 (2 * pi) 100 ! Suc k - linspace 0 (2 * pi) 100 ! k = 2 * pi / real (100 - 1)"
    using inst by blast
  have skew: "\<forall>k<100. 0 < k \<longrightarrow> real k * (2 * pi / real 100) < linspace 0 (2 * pi) 100 ! k"
    using inst by blast
  have ne: "2 * pi / real 100 \<noteq> 2 * pi / real (100 - 1)"
    using inst by blast
  have "linspace 0 (2 * pi) 100 ! Suc 0 - linspace 0 (2 * pi) 100 ! 0 = 2 * pi / real (100 - 1)"
    using gap by simp
  moreover have "linspace 0 (2 * pi) 100 ! 50 = real 50 * (2 * pi / real (100 - 1))"
    using nth by simp
  moreover have "real 50 * (2 * pi / real 100) < linspace 0 (2 * pi) 100 ! 50"
  proof -
    have "(50 :: nat) < 100 \<longrightarrow> 0 < (50 :: nat) \<longrightarrow>
            real 50 * (2 * pi / real 100) < linspace 0 (2 * pi) 100 ! 50"
      using skew by (rule spec)
    then show ?thesis by simp
  qed
  ultimately show ?thesis using h ne by simp
qed

subsection \<open>Zero step size\<close>

lemma iterate_fixed_point: "f s = s \<Longrightarrow> (f ^^ k) s = s"
  by (induction k) simp_all

lemma binary64_zero_step:
  assumes "is_binary64 (F64 a)" and "is_binary64 (F64 b)" and "is_finite64 (omega ^ 2)"
  shows "euler_step 0 omega (F64 a, F64 b) = (F64 a, F64 b)"
proof -
  obtain c where sq: "omega ^ 2 = F64 c"
    using assms(3) by (cases "omega ^ 2") (simp_all add: is_finite64_def)
  have a: "round64 a = F64 a" and b: "round64 b = F64 b"
    using assms(1,2) by (simp_all add: is_binary64_def)
  show ?thesis
    by (simp add: euler_step_def sq zero_f64_def a b)
qed

text \<open>
  Claim C6, as amended. In binary64, with \<open>h = 0\<close> every element of the result is the
  initial state, for every \<open>N > 0\<close>, every initial state of two finite binary64 numbers
  and every \<open>\<omega>\<close> whose square \<open>omega**2\<close> is finite.
\<close>

theorem zero_step_constant:
  fixes omega :: f64
  assumes "length t = N" and "length x = N" and "length y = N" and "0 < N"
    and "is_binary64 (x ! 0)" and "is_binary64 (y ! 0)" and "is_finite64 (omega ^ 2)"
  shows "\<exists>xE yE. euler_integrate junk_x junk_y 0 omega t x y = Inr (xE, yE)
           \<and> length xE = N \<and> length yE = N
           \<and> (\<forall>k<N. xE ! k = x ! 0 \<and> yE ! k = y ! 0)"
proof -
  have t: "length x = length t" "length y = length t" "t \<noteq> []"
    using assms(1-4) by auto
  obtain a where a: "x ! 0 = F64 a"
    using assms(5) by (cases "x ! 0") (simp_all add: is_binary64_def)
  obtain b where b: "y ! 0 = F64 b"
    using assms(6) by (cases "y ! 0") (simp_all add: is_binary64_def)
  have "euler_step 0 omega (x ! 0, y ! 0) = (x ! 0, y ! 0)"
    using assms(5-7) unfolding a b by (rule binary64_zero_step)
  then have "(euler_step 0 omega ^^ k) (x ! 0, y ! 0) = (x ! 0, y ! 0)" for k
    by (rule iterate_fixed_point)
  then show ?thesis
    using euler_integrate_iterates [OF t, of junk_x junk_y 0 omega] assms(1)
    by simp
qed

theorem zero_step_constant_witness:
  "\<exists>xE yE. euler_integrate zeroed zeroed 0 (py_float (1 / 3)) [0, 1, 2 :: nat]
              [py_float (1 / 10), 0, 0] [py_float (7 / 10), 0, 0] = Inr (xE, yE)
     \<and> length xE = 3 \<and> length yE = 3
     \<and> (xE ! 0, yE ! 0) = (py_float (1 / 10), py_float (7 / 10))
     \<and> (xE ! 1, yE ! 1) = (py_float (1 / 10), py_float (7 / 10))
     \<and> (xE ! 2, yE ! 2) = (py_float (1 / 10), py_float (7 / 10))"
proof -
  have x0: "is_binary64 ([py_float (1 / 10), 0, 0] ! 0)"
    by code_simp
  have y0: "is_binary64 ([py_float (7 / 10), 0, 0] ! 0)"
    by code_simp
  have sq: "is_finite64 (py_float (1 / 3) ^ 2)"
    by code_simp
  have len: "length [0, 1, 2 :: nat] = 3" "length [py_float (1 / 10), 0, 0] = 3"
    "length [py_float (7 / 10), 0, 0] = 3" "0 < (3 :: nat)"
    by simp_all
  show ?thesis
    using zero_step_constant [OF len x0 y0 sq, of zeroed zeroed]
    by (auto simp: numeral_3_eq_3)
qed

text \<open>
  Without the two provisos the trajectory is not constant. For \<open>\<omega> = 2\<^sup>6\<^sup>0\<^sup>0\<close>, a binary64
  number, \<open>omega**2\<close> overflows to \<open>\<infinity>\<close> and \<open>h * omega**2\<close> is \<open>0 * \<infinity>\<close>, which is NaN: from
  the state \<open>(1, 1)\<close> the loop stores \<open>yE[1] = nan\<close>. For an infinite initial velocity
  \<open>h * yE[0]\<close> is NaN already, and the loop stores \<open>xE[1] = nan\<close>.
\<close>

lemma overflow_step: "euler_step 0 (F64 (of_int (2 ^ 600))) (1, 1) = (1, NaN)"
  by code_simp

lemma infinite_velocity_step: "euler_step 0 1 (1, PInf) = (NaN, PInf)"
  by code_simp

lemma huge_is_binary64: "is_binary64 (F64 (of_int (2 ^ 600)))"
  by code_simp

theorem zero_step_overflow:
  "euler_integrate zeroed zeroed 0 (F64 (of_int (2 ^ 600))) [0, 1 :: nat] [1, 0] [1, 0]
     = Inr ([1, 1], [1, NaN])
   \<and> is_binary64 (F64 (of_int (2 ^ 600)))
   \<and> F64 (of_int (2 ^ 600)) ^ 2 = PInf
   \<and> euler_integrate zeroed zeroed 0 1 [0, 1 :: nat] [1, 0] [PInf, 0]
     = Inr ([1, NaN], [PInf, PInf])
   \<and> NaN \<noteq> (1 :: f64)"
proof -
  have "euler_integrate zeroed zeroed 0 (F64 (of_int (2 ^ 600))) [0, 1 :: nat] [1, 0] [1, 0]
     = Inr ([1, 1], [1, NaN])"
    by (simp only: two_sample_run overflow_step fst_conv snd_conv)
  moreover have "euler_integrate zeroed zeroed 0 1 [0, 1 :: nat] [1, 0] [PInf, 0]
     = Inr ([1, NaN], [PInf, PInf])"
    by (simp only: two_sample_run infinite_velocity_step fst_conv snd_conv)
  moreover have "F64 (of_int (2 ^ 600)) ^ 2 = PInf"
    by code_simp
  moreover have "NaN \<noteq> (1 :: f64)"
    by (simp add: one_f64_def)
  ultimately show ?thesis
    using huge_is_binary64 by simp
qed

text \<open>In exact arithmetic the provisos are not needed.\<close>

lemma zero_step_constant_real:
  fixes omega :: real
  assumes "length t = N" and "length x = N" and "length y = N" and "0 < N"
  shows "euler_integrate junk_x junk_y 0 omega t x y
           = Inr (replicate N (x ! 0), replicate N (y ! 0))"
proof -
  have t: "length x = length t" "length y = length t" "t \<noteq> []"
    using assms by auto
  have "euler_step 0 omega (x ! 0, y ! 0) = (x ! 0, y ! 0)"
    by (simp add: euler_step_def)
  then have "(euler_step 0 omega ^^ k) (x ! 0, y ! 0) = (x ! 0, y ! 0)" for k
    by (rule iterate_fixed_point)
  then show ?thesis
    using euler_integrate_iterates [OF t, of junk_x junk_y 0 omega] assms(1)
    by (simp add: map_replicate_const)
qed

subsection \<open>Zero frequency\<close>

lemma iterate_zero_frequency:
  fixes h :: real
  shows "(euler_step h 0 ^^ k) (x0, y0) = (x0 + real k * h * y0, y0)"
  by (induction k) (simp_all add: euler_step_def algebra_simps)

text \<open>
  Claim C5, as amended. In exact arithmetic, with \<open>\<omega> = 0\<close> the position drifts linearly
  and the velocity is constant: \<open>xE[k] = x[0] + k * h * y[0]\<close> and \<open>yE[k] = y[0]\<close> for
  every index \<open>k < N\<close>.
\<close>

theorem zero_frequency_closed_form:
  fixes h :: real
  assumes "length t = N" and "length x = N" and "length y = N" and "0 < N"
  shows "\<exists>xE yE. euler_integrate junk_x junk_y h 0 t x y = Inr (xE, yE)
           \<and> length xE = N \<and> length yE = N
           \<and> (\<forall>k<N. xE ! k = x ! 0 + real k * h * y ! 0 \<and> yE ! k = y ! 0)"
proof -
  have t: "length x = length t" "length y = length t" "t \<noteq> []"
    using assms by auto
  show ?thesis
    using euler_integrate_iterates [OF t, of junk_x junk_y h 0] assms(1)
    by (simp add: iterate_zero_frequency)
qed

theorem zero_frequency_closed_form_witness:
  "\<exists>xE yE. euler_integrate zeroed stale (1 / 2) (0 :: real) [0, 1, 2 :: real] [5, 8, 8] [7, 9, 9]
             = Inr (xE, yE)
     \<and> xE ! 2 = 12 \<and> yE ! 2 = 7"
  using zero_frequency_closed_form [of "[0, 1, 2 :: real]" 3 "[5, 8, 8]" "[7, 9, 9]" zeroed stale "1 / 2"]
  by auto

text \<open>
  With rounding the closed form is missed. In binary64, from \<open>x\<^sub>0 = 0\<close>, \<open>y\<^sub>0 = 1\<close> with
  \<open>\<omega> = 0\<close> and \<open>h = 0.1\<close>, the loop reaches \<open>xE[6] = 0.6\<close>, while
  \<open>x\<^sub>0 + 6 * h * y\<^sub>0\<close> is \<open>0.6000000000000001\<close> when computed in binary64 and lies
  halfway between the two when computed exactly.
\<close>

theorem rounded_drift_misses_closed_form:
  "euler_integrate zeroed zeroed (py_float (1 / 10)) 0 [0 ..< 7] (replicate 7 0) (replicate 7 1)
     = Inr (tenth_drift, replicate 7 1)
   \<and> tenth_drift ! 6 = F64 (5404319552844595 / 9007199254740992)
   \<and> 0 + F64 6 * py_float (1 / 10) * 1 = F64 (5404319552844596 / 9007199254740992)
   \<and> tenth_drift ! 6 \<noteq> 0 + F64 6 * py_float (1 / 10) * 1
   \<and> value_of (tenth_drift ! 6) \<noteq> 0 + 6 * value_of (py_float (1 / 10)) * 1"
proof -
  have sixth: "tenth_drift ! 6 = F64 (5404319552844595 / 9007199254740992)"
    by (simp add: tenth_drift_def)
  have "tenth_drift ! 6 \<noteq> 0 + F64 6 * py_float (1 / 10) * 1"
    unfolding sixth closed_form_rounded by simp
  moreover have "value_of (tenth_drift ! 6) \<noteq> 0 + 6 * value_of (py_float (1 / 10)) * 1"
    unfolding sixth closed_form_exact f64.sel by simp
  ultimately show ?thesis
    using tenth_drift_run sixth closed_form_rounded by simp
qed

subsection \<open>Growth of the norm, in exact arithmetic\<close>

lemma weighted_norm_step:
  "weighted_norm omega (euler_step h omega s) = sqrt (1 + (h * omega) ^ 2) * weighted_norm omega s"
proof -
  obtain x y where s: "s = (x, y)" by (cases s)
  have "(omega * (x + h * y)) ^ 2 + (y - h * omega ^ 2 * x) ^ 2
          = (1 + (h * omega) ^ 2) * ((omega * x) ^ 2 + y ^ 2)"
    by (simp add: power2_eq_square algebra_simps)
  then show ?thesis
    by (simp add: s weighted_norm_def euler_step_def real_sqrt_mult)
qed

lemma weighted_norm_pos:
  assumes "omega \<noteq> 0" and "s \<noteq> (0, 0)"
  shows "0 < weighted_norm omega s"
proof -
  obtain x y where s: "s = (x, y)" by (cases s)
  have "x \<noteq> 0 \<or> y \<noteq> 0" using assms(2) s by simp
  then have "0 < (omega * x) ^ 2 + y ^ 2"
    using assms(1) by (auto simp: sum_power2_gt_zero_iff)
  then show ?thesis by (simp add: s weighted_norm_def)
qed

lemma growth_factor_gt_1:
  fixes h omega :: real
  assumes "omega \<noteq> 0" and "0 < h"
  shows "1 < sqrt (1 + (h * omega) ^ 2)"
proof -
  have "0 < (h * omega) ^ 2" using assms by simp
  then show ?thesis by simp
qed

lemma weighted_norm_unit_frequency:
  "omega ^ 2 = 1 \<Longrightarrow> weighted_norm omega s = state_norm s"
  by (cases s) (simp add: weighted_norm_def state_norm_def power_mult_distrib)

text \<open>
  Claim C3, as amended. For \<open>\<omega> \<noteq> 0\<close>, \<open>h > 0\<close> and a nonzero initial state, every Euler
  step multiplies the norm \<open>sqrt ((\<omega> x)\<^sup>2 + y\<^sup>2)\<close> of the state by \<open>sqrt (1 + (h \<omega>)\<^sup>2)\<close>,
  the modulus of the eigenvalues \<open>1 \<plusminus> i h \<omega>\<close> of the update matrix, which is greater than
  1: this norm is strictly increasing along the trajectory. For \<open>\<omega>\<^sup>2 = 1\<close>, the notebook's
  case, it is the Euclidean norm.
\<close>

theorem weighted_norm_strictly_increasing:
  fixes h omega :: real
  assumes "length x = length t" and "length y = length t" and "t \<noteq> []"
    and "omega \<noteq> 0" and "0 < h" and "(x ! 0, y ! 0) \<noteq> (0, 0)"
  shows "\<exists>xE yE. euler_integrate junk_x junk_y h omega t x y = Inr (xE, yE)
           \<and> (\<forall>k. Suc k < length t \<longrightarrow>
                  weighted_norm omega (xE ! Suc k, yE ! Suc k)
                    = sqrt (1 + (h * omega) ^ 2) * weighted_norm omega (xE ! k, yE ! k)
                  \<and> weighted_norm omega (xE ! k, yE ! k)
                      < weighted_norm omega (xE ! Suc k, yE ! Suc k)
                  \<and> (omega ^ 2 = 1 \<longrightarrow>
                        state_norm (xE ! k, yE ! k) < state_norm (xE ! Suc k, yE ! Suc k)))"
proof -
  let ?c = "sqrt (1 + (h * omega) ^ 2)"
  let ?w = "weighted_norm omega"
  obtain xE yE where
    run: "euler_integrate junk_x junk_y h omega t x y = Inr (xE, yE)"
    and init: "xE ! 0 = x ! 0" "yE ! 0 = y ! 0"
    and rec: "\<forall>k. Suc k < length t \<longrightarrow>
                  (xE ! Suc k, yE ! Suc k) = euler_step h omega (xE ! k, yE ! k)"
    using euler_integrate_run [OF assms(1-3)] by blast
  have c: "1 < ?c" using assms(4,5) by (rule growth_factor_gt_1)
  have step: "?w (xE ! Suc k, yE ! Suc k) = ?c * ?w (xE ! k, yE ! k)" if "Suc k < length t" for k
    using rec that by (simp add: weighted_norm_step)
  have pos: "k < length t \<Longrightarrow> 0 < ?w (xE ! k, yE ! k)" for k
  proof (induction k)
    case 0
    then show ?case using init assms(4,6) by (simp add: weighted_norm_pos)
  next
    case (Suc k)
    then have "0 < ?w (xE ! k, yE ! k)" by simp
    moreover have "0 < ?c" using c by linarith
    ultimately have "0 < ?c * ?w (xE ! k, yE ! k)" by (rule mult_pos_pos [rotated])
    then show ?case using step [OF Suc.prems] by simp
  qed
  have grow: "?w (xE ! k, yE ! k) < ?w (xE ! Suc k, yE ! Suc k)" if "Suc k < length t" for k
  proof -
    have "0 < ?w (xE ! k, yE ! k)" using pos that by simp
    then have "1 * ?w (xE ! k, yE ! k) < ?c * ?w (xE ! k, yE ! k)"
      using c by (intro mult_strict_right_mono)
    then show ?thesis using step [OF that] by simp
  qed
  have "state_norm (xE ! k, yE ! k) < state_norm (xE ! Suc k, yE ! Suc k)"
    if "Suc k < length t" "omega ^ 2 = 1" for k
    using grow [OF that(1)] that(2) by (simp add: weighted_norm_unit_frequency)
  then show ?thesis using run step grow by blast
qed

theorem weighted_norm_strictly_increasing_witness:
  "\<exists>xE yE. euler_integrate zeroed stale (1 / 4) (2 :: real) [0, 1 / 4 :: real] [1, 0] [1, 0] = Inr (xE, yE)
     \<and> weighted_norm 2 (xE ! 0, yE ! 0) < weighted_norm 2 (xE ! 1, yE ! 1)
     \<and> weighted_norm 2 (xE ! 1, yE ! 1) = sqrt (1 + (1 / 4 * 2) ^ 2) * weighted_norm 2 (xE ! 0, yE ! 0)"
  using weighted_norm_strictly_increasing
          [of "[1, 0 :: real]" "[0, 1 / 4 :: real]" "[1, 0 :: real]" 2 "1 / 4" zeroed stale]
  by auto

text \<open>
  The Euclidean norm itself need not grow. With \<open>\<omega> = 2\<close> and \<open>h = 1/4\<close> the state
  \<open>(1, 1)\<close> steps to \<open>(5/4, 0)\<close>, of smaller norm, in exact arithmetic and in binary64
  alike; and the zero state stays at zero for any parameters, here \<open>\<omega> = 1\<close> and \<open>h = 1\<close>.
\<close>

theorem euclidean_norm_can_shrink:
  "euler_integrate zeroed zeroed (1 / 4) (2 :: real) [0, 1 / 4 :: real] [1, 0] [1, 0]
     = Inr ([1, 5 / 4], [1, 0])
   \<and> state_norm (5 / 4, 0) < state_norm (1, 1)
   \<and> euler_integrate zeroed zeroed (F64 (1 / 4)) (F64 2) [0, 1 / 4 :: real] [1, 0] [1, 0]
     = Inr ([1, F64 (5 / 4)], [1, 0])
   \<and> euler_integrate zeroed zeroed 1 (1 :: real) [0, 1 :: real] [0, 0] [0, 0] = Inr ([0, 0], [0, 0])
   \<and> \<not> state_norm (0, 0) < state_norm (0, 0)"
proof -
  have "(5 / 4 :: real) < sqrt 2"
    by (rule real_less_rsqrt) (simp add: power2_eq_square)
  then have "state_norm (5 / 4, 0) < state_norm (1, 1)"
    by (simp add: state_norm_def)
  moreover have "euler_integrate zeroed zeroed (1 / 4) (2 :: real) [0, 1 / 4 :: real] [1, 0] [1, 0]
     = Inr ([1, 5 / 4], [1, 0])"
    by (simp add: two_sample_run euler_step_def)
  moreover have "euler_integrate zeroed zeroed (F64 (1 / 4)) (F64 2) [0, 1 / 4 :: real] [1, 0] [1, 0]
     = Inr ([1, F64 (5 / 4)], [1, 0])"
    by (simp only: two_sample_run shrink_step_binary64 fst_conv snd_conv)
  moreover have "euler_integrate zeroed zeroed 1 (1 :: real) [0, 1 :: real] [0, 0] [0, 0]
     = Inr ([0, 0], [0, 0])"
    by (simp add: two_sample_run euler_step_def)
  ultimately show ?thesis by simp
qed

end
